theory Spec2Isabelle
  imports Complex_Main
begin

section \<open>Python values shared by the modules\<close>

text \<open>
  Exceptions are values: every function that can raise returns \<open>py_error + 'a\<close>,
  with \<open>Inl\<close> carrying the exception. The float64 arithmetic of the mapping table is a
  parameter of the model (\<open>float_ops\<close> below), so that nothing depends on how it rounds.
  The pixel values of the seam blend and the times of the consumer loop are real numbers.
\<close>

datatype py_error =
    AttributeError
  | ValueError
  | ZeroDivisionError
  | QueueEmpty
  | QueueFull
  | BrokenPipeError
  | IndexError

definition ebind :: "py_error + 'a \<Rightarrow> ('a \<Rightarrow> py_error + 'b) \<Rightarrow> py_error + 'b" where
  "ebind m f = (case m of Inl e \<Rightarrow> Inl e | Inr v \<Rightarrow> f v)"

text \<open>
  An instance attribute of a Python object is either never assigned (\<open>Unset\<close>, reading it
  raises AttributeError) or holds a value, which may be Python's \<open>None\<close>.
\<close>

datatype 'a attribute = Unset | Holds 'a

definition getattr :: "'a attribute \<Rightarrow> py_error + 'a" where
  "getattr a = (case a of Unset \<Rightarrow> Inl AttributeError | Holds v \<Rightarrow> Inr v)"

text \<open>
  A video frame is a numpy array of shape \<open>(shape0, shape1, 3)\<close>: \<open>shape0\<close> rows of
  \<open>shape1\<close> pixels with three channels each.
\<close>

type_synonym pixel = "real \<times> real \<times> real"

record image =
  shape0 :: nat
  shape1 :: nat
  pixels :: "pixel list list"

text \<open>Handles of the operating-system resources the objects own.\<close>

datatype thread_handle = Thread (is_alive: bool)

datatype popen = Popen (poll_none: bool)

datatype capture = VideoCapture (isOpened: bool)

section \<open>rtmp\_streamer.py\<close>

subsection \<open>queue.Queue\<close>

record 'a py_queue =
  maxsize :: int
  items :: "'a list"

definition qsize :: "'a py_queue \<Rightarrow> nat" where
  "qsize q = length (items q)"

definition q_empty :: "'a py_queue \<Rightarrow> bool" where
  "q_empty q = (items q = [])"

text \<open>\<open>Queue.full\<close>: a queue with \<open>maxsize <= 0\<close> is unbounded and never full.\<close>

definition q_full :: "'a py_queue \<Rightarrow> bool" where
  "q_full q = (0 < maxsize q \<and> maxsize q \<le> int (qsize q))"

definition get_nowait :: "'a py_queue \<Rightarrow> py_error + ('a \<times> 'a py_queue)" where
  "get_nowait q =
     (case items q of
        [] \<Rightarrow> Inl QueueEmpty
      | x # xs \<Rightarrow> Inr (x, q\<lparr>items := xs\<rparr>))"

definition put_nowait :: "'a py_queue \<Rightarrow> 'a \<Rightarrow> py_error + 'a py_queue" where
  "put_nowait q x =
     (if q_full q then Inl QueueFull else Inr (q\<lparr>items := items q @ [x]\<rparr>))"

subsection \<open>RTMPStreamer\<close>

record rtmp_streamer =
  rtmp_url :: string
  width :: int
  height :: int
  fps :: int
  bitrate :: string
  running :: bool
  frame_queue :: "image py_queue"
  process :: "popen option"
  thread :: "thread_handle option"

definition rtmp_streamer_init :: "string \<Rightarrow> int \<Rightarrow> int \<Rightarrow> int \<Rightarrow> string \<Rightarrow> rtmp_streamer" where
  "rtmp_streamer_init url w h f b =
     \<lparr> rtmp_url = url, width = w, height = h, fps = f, bitrate = b,
       running = False,
       frame_queue = \<lparr> maxsize = 10, items = [] \<rparr>,
       process = None,
       thread = None \<rparr>"

definition streamer_start :: "rtmp_streamer \<Rightarrow> rtmp_streamer" where
  "streamer_start s =
     (if running s then s
      else s\<lparr>running := True, thread := Some (Thread True)\<rparr>)"

text \<open>
  \<open>stop\<close> of the streamer. The join has a timeout of one second, so the consumer thread may or may not
  have ended when it returns: \<open>joined\<close> is that outcome. The encoder process is
  terminated, and killed when it does not exit within five seconds; either way the
  handle is dropped. The loop that empties the queue removes one item per round.
\<close>

fun drain :: "'a list \<Rightarrow> 'a list" where
  "drain [] = []"
| "drain (x # xs) = drain xs"

definition streamer_stop :: "bool \<Rightarrow> rtmp_streamer \<Rightarrow> rtmp_streamer" where
  "streamer_stop joined s =
     (let s1 = s\<lparr>running := False\<rparr>;
          s2 = (case thread s1 of
                  None \<Rightarrow> s1
                | Some t \<Rightarrow> s1\<lparr>thread := Some (Thread (is_alive t \<and> \<not> joined))\<rparr>);
          s3 = (case process s2 of
                  None \<Rightarrow> s2
                | Some p \<Rightarrow> s2\<lparr>process := None\<rparr>)
      in s3\<lparr>frame_queue := (frame_queue s3)\<lparr>items := drain (items (frame_queue s3))\<rparr>\<rparr>)"

text \<open>
  \<open>push_frame\<close>. \<open>cv2.resize\<close> is OpenCV's, so it is a parameter \<open>resize\<close>; it can
  raise (for instance on a target size that is not positive), and that exception
  leaves \<open>push_frame\<close>, since the call is outside the two \<open>try\<close> blocks. The result is
  the returned boolean together with the streamer afterwards.
\<close>

definition fit ::
  "(image \<Rightarrow> int \<times> int \<Rightarrow> py_error + image) \<Rightarrow> rtmp_streamer \<Rightarrow> image \<Rightarrow> py_error + image" where
  "fit resize s frame =
     (if int (shape0 frame) \<noteq> height s \<or> int (shape1 frame) \<noteq> width s
      then resize frame (width s, height s)
      else Inr frame)"

definition evict_if_full :: "'a py_queue \<Rightarrow> 'a py_queue" where
  "evict_if_full q =
     (if q_full q
      then (case get_nowait q of Inl e \<Rightarrow> q | Inr (x, q') \<Rightarrow> q')
      else q)"

definition push_frame ::
  "(image \<Rightarrow> int \<times> int \<Rightarrow> py_error + image) \<Rightarrow> rtmp_streamer \<Rightarrow> image
     \<Rightarrow> py_error + (bool \<times> rtmp_streamer)" where
  "push_frame resize s frame =
     (if \<not> running s then Inr (False, s)
      else
        ebind (fit resize s frame) (\<lambda>frame'.
          let q = evict_if_full (frame_queue s)
          in (case put_nowait q frame' of
                Inl e \<Rightarrow> Inr (False, s\<lparr>frame_queue := q\<rparr>)
              | Inr q' \<Rightarrow> Inr (True, s\<lparr>frame_queue := q'\<rparr>))))"

text \<open>
  A producer pushing a list of frames, nothing consuming: the booleans returned and
  the streamer after each push, in order. An exception ends the run.
\<close>

fun push_all ::
  "(image \<Rightarrow> int \<times> int \<Rightarrow> py_error + image) \<Rightarrow> rtmp_streamer \<Rightarrow> image list
     \<Rightarrow> py_error + (bool \<times> rtmp_streamer) list" where
  "push_all resize s [] = Inr []"
| "push_all resize s (f # fs) =
     ebind (push_frame resize s f) (\<lambda>(ok, s').
       ebind (push_all resize s' fs) (\<lambda>rest. Inr ((ok, s') # rest)))"

text \<open>The frames as they are enqueued: each one brought to the target resolution.\<close>

fun fit_all ::
  "(image \<Rightarrow> int \<times> int \<Rightarrow> py_error + image) \<Rightarrow> rtmp_streamer \<Rightarrow> image list
     \<Rightarrow> py_error + image list" where
  "fit_all resize s [] = Inr []"
| "fit_all resize s (f # fs) =
     ebind (fit resize s f) (\<lambda>g. ebind (fit_all resize s fs) (\<lambda>gs. Inr (g # gs)))"


text \<open>
  One iteration of the consumer loop in \<open>_stream_loop\<close>. The loop keeps the deadline
  \<open>next_frame_time\<close> in a local variable; \<open>slept\<close> records the arguments of the calls of
  \<open>time.sleep\<close> and \<open>stdin\<close> the frames written to the encoder's pipe, in order.
  The clock is the environment's: \<open>t1\<close> is what \<open>time.time()\<close> returns when
  \<open>current_time\<close> is read, \<open>t2\<close> what it returns when the deadline is updated.
  A write to a live encoder succeeds.
\<close>

record stream_loop =
  streamer :: rtmp_streamer
  next_frame_time :: real
  slept :: "real list"
  stdin :: "image list"

datatype 'a iteration = Exit 'a | Next 'a

definition time_sleep :: "real \<Rightarrow> stream_loop \<Rightarrow> stream_loop" where
  "time_sleep d l = l\<lparr>slept := slept l @ [d]\<rparr>"

definition frame_time_of :: "rtmp_streamer \<Rightarrow> py_error + real" where
  "frame_time_of s = (if fps s = 0 then Inl ZeroDivisionError else Inr (1 / real_of_int (fps s)))"

definition stream_iteration :: "real \<Rightarrow> real \<Rightarrow> real \<Rightarrow> stream_loop \<Rightarrow> stream_loop iteration" where
  "stream_iteration frame_time t1 t2 l =
     (let s = streamer l in
      if \<not> (running s \<and> (case process s of None \<Rightarrow> False | Some p \<Rightarrow> poll_none p))
      then Exit l
      else if q_empty (frame_queue s)
      then Next (time_sleep (1 / 1000) l)
      else
        (case get_nowait (frame_queue s) of
           Inl e \<Rightarrow> Exit l
         | Inr (frame, q') \<Rightarrow>
             let l1 = l\<lparr>streamer := s\<lparr>frame_queue := q'\<rparr>\<rparr>;
                 current_time = t1;
                 wait_time = max 0 (next_frame_time l1 - current_time);
                 l2 = (if wait_time > 0 then time_sleep wait_time l1 else l1);
                 l3 = l2\<lparr>next_frame_time := max t2 (next_frame_time l2 + frame_time)\<rparr>
             in Next (l3\<lparr>stdin := stdin l3 @ [frame]\<rparr>)))"

section \<open>insta360\_processor.py\<close>

subsection \<open>numpy\<close>

text \<open>
  The float64 arithmetic of \<open>_init_mapping_table\<close>. A float64 value is a value of the
  type \<open>'f\<close>. The fields of \<open>fl\<close> are what Python and numpy do with such values: the
  conversion \<open>num\<close> of a Python number (an int, or a float of the calibration) to
  float64, the constant \<open>np.pi\<close>, the arithmetic operations, the functions of numpy,
  the comparisons \<open><=\<close>, \<open><\<close> and \<open>==\<close>, and the conversion \<open>float32\<close> applied
  when a value is assigned to an element of a float32 array. Nothing is assumed about
  them: what is proved holds for IEEE arithmetic with its rounding, its signed zeros
  and its NaN. An element of a float32 table is the real number it denotes; the loop
  only stores values that passed \<open>0 <= v < width\<close>, which are finite.
\<close>

record 'f float_ops =
  num :: "real \<Rightarrow> 'f"
  np_pi :: 'f
  f_neg :: "'f \<Rightarrow> 'f"
  f_add :: "'f \<Rightarrow> 'f \<Rightarrow> 'f"
  f_sub :: "'f \<Rightarrow> 'f \<Rightarrow> 'f"
  f_mul :: "'f \<Rightarrow> 'f \<Rightarrow> 'f"
  f_div :: "'f \<Rightarrow> 'f \<Rightarrow> 'f"
  np_cos :: "'f \<Rightarrow> 'f"
  np_sin :: "'f \<Rightarrow> 'f"
  np_sqrt :: "'f \<Rightarrow> 'f"
  np_arccos :: "'f \<Rightarrow> 'f"
  np_arctan2 :: "'f \<Rightarrow> 'f \<Rightarrow> 'f"
  f_le :: "'f \<Rightarrow> 'f \<Rightarrow> bool"
  f_lt :: "'f \<Rightarrow> 'f \<Rightarrow> bool"
  f_eq :: "'f \<Rightarrow> 'f \<Rightarrow> bool"
  float32 :: "'f \<Rightarrow> real"

text \<open>
  One arithmetic to run the model on: every operation returns the exact real result,
  and the store rounds to the nearest float32 (24 significant bits, ties to even,
  subnormal below \<open>2^-126\<close>; the overflow to infinity is left out). On an input where
  every float64 operation of the loop body is exact, it computes what numpy computes.
  \<open>arctan2\<close> is the function that \<open>np.arctan2(y, x)\<close> rounds.
\<close>

definition arctan2 :: "real \<Rightarrow> real \<Rightarrow> real" where
  "arctan2 y x =
     (if 0 < x then arctan (y / x)
      else if x < 0 \<and> 0 \<le> y then arctan (y / x) + pi
      else if x < 0 \<and> y < 0 then arctan (y / x) - pi
      else if 0 < y then pi / 2
      else if y < 0 then - pi / 2
      else 0)"

definition round_half_even :: "real \<Rightarrow> int" where
  "round_half_even q =
     (if q - of_int \<lfloor>q\<rfloor> < 1 / 2 then \<lfloor>q\<rfloor>
      else if 1 / 2 < q - of_int \<lfloor>q\<rfloor> then \<lfloor>q\<rfloor> + 1
      else if even \<lfloor>q\<rfloor> then \<lfloor>q\<rfloor> else \<lfloor>q\<rfloor> + 1)"

definition round_float32 :: "real \<Rightarrow> real" where
  "round_float32 v =
     (if v = 0 then 0
      else
        let e = max \<lfloor>log 2 \<bar>v\<bar>\<rfloor> (- 126);
            ulp = 2 powr (of_int e - 23)
        in of_int (round_half_even (v / ulp)) * ulp)"

definition exact_arith :: "real float_ops" where
  "exact_arith =
     \<lparr> num = (\<lambda>v. v), np_pi = pi, f_neg = uminus,
       f_add = (+), f_sub = (-), f_mul = (*), f_div = (/),
       np_cos = cos, np_sin = sin, np_sqrt = sqrt, np_arccos = arccos, np_arctan2 = arctan2,
       f_le = (\<le>), f_lt = (<), f_eq = (=),
       float32 = round_float32 \<rparr>"

text \<open>
  \<open>np.zeros((rows, cols))\<close> raises ValueError on a negative dimension. A two-dimensional
  float array is a list of rows.
\<close>

definition np_zeros :: "int \<Rightarrow> int \<Rightarrow> py_error + real list list" where
  "np_zeros rows cols =
     (if rows < 0 \<or> cols < 0 then Inl ValueError
      else Inr (replicate (nat rows) (replicate (nat cols) 0)))"

text \<open>\<open>m[y, x] = v\<close>.\<close>

definition store :: "nat \<Rightarrow> nat \<Rightarrow> real \<Rightarrow> real list list \<Rightarrow> real list list" where
  "store y x v m = m[y := (m ! y)[x := v]]"

text \<open>
  A slice \<open>start:stop\<close> of a sequence of length \<open>n\<close>: a negative index counts from the
  end, and both ends are clipped to the sequence. The result is the pair of positions
  the slice runs between.
\<close>

definition slice_bounds :: "int option \<Rightarrow> int option \<Rightarrow> nat \<Rightarrow> nat \<times> nat" where
  "slice_bounds start stop n =
     (let clip = (\<lambda>i. if i < 0 then max (i + int n) 0 else min i (int n));
          lo = (case start of None \<Rightarrow> 0 | Some i \<Rightarrow> clip i);
          hi = (case stop of None \<Rightarrow> int n | Some j \<Rightarrow> clip j)
      in (nat lo, nat (max lo hi)))"

text \<open>\<open>a[:, start:stop]\<close>: the same columns of every row.\<close>

definition cols :: "int option \<Rightarrow> int option \<Rightarrow> image \<Rightarrow> image" where
  "cols start stop a =
     (case slice_bounds start stop (shape1 a) of
        (lo, hi) \<Rightarrow>
          \<lparr> shape0 = shape0 a, shape1 = hi - lo,
            pixels = map (\<lambda>row. take (hi - lo) (drop lo row)) (pixels a) \<rparr>)"

text \<open>
  An arithmetic operation on two arrays broadcasts along the column axis: the widths
  must be equal, or one of them is 1 and that column is repeated. Anything else raises
  ValueError. All operands of \<open>_blend_seam\<close> have the rows and the three channels of the
  panorama, so only the column axis can disagree.
\<close>

definition broadcast :: "(pixel \<Rightarrow> pixel \<Rightarrow> pixel) \<Rightarrow> image \<Rightarrow> image \<Rightarrow> py_error + image" where
  "broadcast f a b =
     (if shape1 a = shape1 b
      then Inr \<lparr> shape0 = shape0 a, shape1 = shape1 a,
                 pixels = map2 (map2 f) (pixels a) (pixels b) \<rparr>
      else if shape1 a = 1
      then Inr \<lparr> shape0 = shape0 a, shape1 = shape1 b,
                 pixels = map2 (\<lambda>ra rb. map (f (hd ra)) rb) (pixels a) (pixels b) \<rparr>
      else if shape1 b = 1
      then Inr \<lparr> shape0 = shape0 a, shape1 = shape1 a,
                 pixels = map2 (\<lambda>ra rb. map (\<lambda>u. f u (hd rb)) ra) (pixels a) (pixels b) \<rparr>
      else Inl ValueError)"

definition pmul :: "pixel \<Rightarrow> pixel \<Rightarrow> pixel" where
  "pmul u v = (case u of (a, b, c) \<Rightarrow> (case v of (d, e, f) \<Rightarrow> (a * d, b * e, c * f)))"

definition padd :: "pixel \<Rightarrow> pixel \<Rightarrow> pixel" where
  "padd u v = (case u of (a, b, c) \<Rightarrow> (case v of (d, e, f) \<Rightarrow> (a + d, b + e, c + f)))"

text \<open>\<open>1 - a\<close>.\<close>

definition one_minus :: "image \<Rightarrow> image" where
  "one_minus a = a\<lparr>pixels := map (map (\<lambda>(x, y, z). (1 - x, 1 - y, 1 - z))) (pixels a)\<rparr>"

text \<open>\<open>np.concatenate((a, b), axis=1)\<close> of two arrays with the same rows.\<close>

definition concatenate :: "image \<Rightarrow> image \<Rightarrow> image" where
  "concatenate a b =
     \<lparr> shape0 = shape0 a, shape1 = shape1 a + shape1 b,
       pixels = map2 (@) (pixels a) (pixels b) \<rparr>"

text \<open>
  \<open>result[:, start:stop] = v\<close>: the value must have the width of the target columns, or
  width 1; any other width raises ValueError, also width 0 against a target that is
  not empty.
\<close>

definition assign_cols :: "int option \<Rightarrow> int option \<Rightarrow> image \<Rightarrow> image \<Rightarrow> py_error + image" where
  "assign_cols start stop v result =
     (case slice_bounds start stop (shape1 result) of
        (lo, hi) \<Rightarrow>
          if shape1 v = hi - lo
          then Inr (result\<lparr>pixels :=
                 map2 (\<lambda>row vs. take lo row @ vs @ drop hi row) (pixels result) (pixels v)\<rparr>)
          else if shape1 v = 1
          then Inr (result\<lparr>pixels :=
                 map2 (\<lambda>row vs. take lo row @ replicate (hi - lo) (hd vs) @ drop hi row)
                   (pixels result) (pixels v)\<rparr>)
          else Inl ValueError)"

subsection \<open>Insta360Processor\<close>

record lens =
  cx :: real
  cy :: real
  radius :: real
  offset_angle :: real

record fisheye =
  left :: lens
  right :: lens

text \<open>
  The constructor assigns every field below except \<open>thread\<close>, which only \<open>start\<close>
  assigns.
\<close>

record insta360_processor =
  camera_index :: int
  output_width :: int
  output_height :: int
  cap :: "capture option"
  processor_running :: bool
  frame :: "image option"
  processed_frame :: "image option"
  fisheye_params :: fisheye
  map_x :: "real list list option"
  map_y :: "real list list option"
  use_brightness_equalization :: bool
  use_color_balance :: bool
  overlap_width :: int
  processor_thread :: "thread_handle option attribute"

text \<open>\<open>int(x)\<close> of a float: truncation towards zero.\<close>

definition py_int :: "real \<Rightarrow> int" where
  "py_int x = (if 0 \<le> x then \<lfloor>x\<rfloor> else \<lceil>x\<rceil>)"

text \<open>\<open>loaded\<close> is what \<open>_load_fisheye_params\<close> read from the calibration file, if anything.\<close>

definition insta360_processor_init :: "fisheye option \<Rightarrow> int \<Rightarrow> int \<Rightarrow> int \<Rightarrow> insta360_processor" where
  "insta360_processor_init loaded idx w h =
     \<lparr> camera_index = idx, output_width = w, output_height = h,
       cap = None, processor_running = False, frame = None, processed_frame = None,
       fisheye_params =
         (case loaded of
            Some params \<Rightarrow> params
          | None \<Rightarrow>
              \<lparr> left = \<lparr> cx = 0, cy = 1 / 2, radius = 48 / 100, offset_angle = 0 \<rparr>,
                right = \<lparr> cx = 1, cy = 1 / 2, radius = 48 / 100, offset_angle = 0 \<rparr> \<rparr>),
       map_x = None, map_y = None,
       use_brightness_equalization = True, use_color_balance = True,
       overlap_width = py_int (real_of_int w * (1 / 10)),
       processor_thread = Unset \<rparr>"

text \<open>
  \<open>start\<close>; \<open>opens\<close> says whether the camera device can be opened. A method returns what
  it raised or returned together with the object afterwards, since the assignments made
  before an exception stay.
\<close>

definition processor_start :: "bool \<Rightarrow> insta360_processor \<Rightarrow> (py_error + unit) \<times> insta360_processor" where
  "processor_start opens p =
     (if processor_running p then (Inr (), p)
      else
        let p1 = p\<lparr>cap := Some (VideoCapture opens)\<rparr>
        in if \<not> opens then (Inl ValueError, p1)
           else (Inr (), p1\<lparr>processor_running := True,
                            processor_thread := Holds (Some (Thread True))\<rparr>))"

definition processor_stop :: "insta360_processor \<Rightarrow> (py_error + unit) \<times> insta360_processor" where
  "processor_stop p =
     (let p1 = p\<lparr>processor_running := False\<rparr>
      in case getattr (processor_thread p1) of
           Inl e \<Rightarrow> (Inl e, p1)
         | Inr t \<Rightarrow>
             let p2 = (case t of
                         None \<Rightarrow> p1
                       | Some th \<Rightarrow> p1\<lparr>processor_thread := Holds (Some (Thread False))\<rparr>);
                 p3 = (case cap p2 of
                         None \<Rightarrow> p2
                       | Some c \<Rightarrow> p2\<lparr>cap := Some (VideoCapture False)\<rparr>)
             in (Inr (), p3))"

text \<open>
  The body of the two loops of \<open>_init_mapping_table\<close> for the output pixel \<open>(x, y)\<close>;
  \<open>frame_height\<close> and \<open>frame_width\<close> are the source frame's \<open>height\<close> and \<open>width\<close>.
  Every operation is written out in the order Python evaluates it:
  \<open>2 * np.pi * x / W - np.pi\<close> is \<open>((2 * pi) * x) / W - pi\<close> and \<open>-np.pi/2\<close> is
  \<open>(-pi) / 2\<close>. \<open>continue\<close> and a source coordinate outside the frame leave both tables
  as they are; a coordinate inside the frame is assigned to the float32 tables.
\<close>

definition pixel_step ::
  "'f float_ops \<Rightarrow> insta360_processor \<Rightarrow> nat \<Rightarrow> nat \<Rightarrow> nat \<Rightarrow> nat
     \<Rightarrow> real list list \<times> real list list \<Rightarrow> real list list \<times> real list list" where
  "pixel_step fl p frame_height frame_width y x maps =
     (let theta = f_sub fl (f_div fl (f_mul fl (f_mul fl (num fl 2) (np_pi fl)) (num fl (real x)))
                                     (num fl (real_of_int (output_width p))))
                           (np_pi fl);
          phi = f_sub fl (f_div fl (f_mul fl (np_pi fl) (num fl (real y)))
                                   (num fl (real_of_int (output_height p))))
                         (f_div fl (np_pi fl) (num fl 2));
          x_3d = f_mul fl (np_cos fl phi) (np_cos fl theta);
          y_3d = f_mul fl (np_cos fl phi) (np_sin fl theta);
          z_3d = np_sin fl phi;
          params = (if f_le fl (f_div fl (f_neg fl (np_pi fl)) (num fl 2)) theta
                       \<and> f_le fl theta (f_div fl (np_pi fl) (num fl 2))
                    then right (fisheye_params p) else left (fisheye_params p));
          r = np_sqrt fl (f_add fl (f_mul fl x_3d x_3d) (f_mul fl z_3d z_3d))
      in if f_eq fl r (num fl 0) then maps
         else
           let theta_fisheye = np_arctan2 fl y_3d x_3d;
               rho_fisheye =
                 f_div fl
                   (np_arccos fl
                      (f_div fl z_3d
                         (np_sqrt fl (f_add fl (f_add fl (f_mul fl x_3d x_3d) (f_mul fl y_3d y_3d))
                                               (f_mul fl z_3d z_3d)))))
                   (np_pi fl);
               theta_fisheye = f_add fl theta_fisheye (num fl (offset_angle params));
               x_fisheye =
                 f_add fl (f_mul fl (num fl (cx params)) (num fl (real frame_width)))
                          (f_mul fl (f_mul fl (f_mul fl (num fl (radius params))
                                                        (num fl (real frame_width)))
                                              rho_fisheye)
                                    (np_cos fl theta_fisheye));
               y_fisheye =
                 f_add fl (f_mul fl (num fl (cy params)) (num fl (real frame_height)))
                          (f_mul fl (f_mul fl (f_mul fl (num fl (radius params))
                                                        (num fl (real frame_height)))
                                              rho_fisheye)
                                    (np_sin fl theta_fisheye))
           in if f_le fl (num fl 0) x_fisheye \<and> f_lt fl x_fisheye (num fl (real frame_width))
                 \<and> f_le fl (num fl 0) y_fisheye \<and> f_lt fl y_fisheye (num fl (real frame_height))
              then (store y x (float32 fl x_fisheye) (fst maps),
                    store y x (float32 fl y_fisheye) (snd maps))
              else maps)"

definition init_mapping_table ::
  "'f float_ops \<Rightarrow> insta360_processor \<Rightarrow> nat \<times> nat
     \<Rightarrow> py_error + (real list list \<times> real list list)" where
  "init_mapping_table fl p frame_shape =
     (case frame_shape of
        (frame_height, frame_width) \<Rightarrow>
          ebind (np_zeros (output_height p) (output_width p)) (\<lambda>mx.
          ebind (np_zeros (output_height p) (output_width p)) (\<lambda>my.
            Inr (fold (\<lambda>y. fold (pixel_step fl p frame_height frame_width y)
                                [0..<nat (output_width p)])
                   [0..<nat (output_height p)] (mx, my)))))"

text \<open>
  What the loop body does to the tables at \<open>(x, y)\<close>, read off \<open>pixel_step\<close>: the
  float64 source coordinate whose float32 conversion it stores, or \<open>None\<close> when it
  stores nothing (\<open>r == 0\<close>, or a coordinate outside the frame).
\<close>

definition src_pixel ::
  "'f float_ops \<Rightarrow> insta360_processor \<Rightarrow> nat \<Rightarrow> nat \<Rightarrow> nat \<Rightarrow> nat \<Rightarrow> ('f \<times> 'f) option" where
  "src_pixel fl p frame_height frame_width y x =
     (let theta = f_sub fl (f_div fl (f_mul fl (f_mul fl (num fl 2) (np_pi fl)) (num fl (real x)))
                                     (num fl (real_of_int (output_width p))))
                           (np_pi fl);
          phi = f_sub fl (f_div fl (f_mul fl (np_pi fl) (num fl (real y)))
                                   (num fl (real_of_int (output_height p))))
                         (f_div fl (np_pi fl) (num fl 2));
          x_3d = f_mul fl (np_cos fl phi) (np_cos fl theta);
          y_3d = f_mul fl (np_cos fl phi) (np_sin fl theta);
          z_3d = np_sin fl phi;
          params = (if f_le fl (f_div fl (f_neg fl (np_pi fl)) (num fl 2)) theta
                       \<and> f_le fl theta (f_div fl (np_pi fl) (num fl 2))
                    then right (fisheye_params p) else left (fisheye_params p));
          r = np_sqrt fl (f_add fl (f_mul fl x_3d x_3d) (f_mul fl z_3d z_3d));
          theta_fisheye = f_add fl (np_arctan2 fl y_3d x_3d) (num fl (offset_angle params));
          rho_fisheye =
            f_div fl
              (np_arccos fl
                 (f_div fl z_3d
                    (np_sqrt fl (f_add fl (f_add fl (f_mul fl x_3d x_3d) (f_mul fl y_3d y_3d))
                                          (f_mul fl z_3d z_3d)))))
              (np_pi fl);
          x_fisheye =
            f_add fl (f_mul fl (num fl (cx params)) (num fl (real frame_width)))
                     (f_mul fl (f_mul fl (f_mul fl (num fl (radius params))
                                                   (num fl (real frame_width)))
                                         rho_fisheye)
                               (np_cos fl theta_fisheye));
          y_fisheye =
            f_add fl (f_mul fl (num fl (cy params)) (num fl (real frame_height)))
                     (f_mul fl (f_mul fl (f_mul fl (num fl (radius params))
                                                   (num fl (real frame_height)))
                                         rho_fisheye)
                               (np_sin fl theta_fisheye))
      in if \<not> f_eq fl r (num fl 0)
              \<and> f_le fl (num fl 0) x_fisheye \<and> f_lt fl x_fisheye (num fl (real frame_width))
              \<and> f_le fl (num fl 0) y_fisheye \<and> f_lt fl y_fisheye (num fl (real frame_height))
         then Some (x_fisheye, y_fisheye) else None)"

text \<open>
  A pair of table entries read as a source coordinate lies in the frame:
  \<open>0 <= x < width\<close> and \<open>0 <= y < height\<close>.
\<close>

definition in_frame :: "nat \<Rightarrow> nat \<Rightarrow> real \<times> real \<Rightarrow> bool" where
  "in_frame frame_height frame_width c =
     (0 \<le> fst c \<and> fst c < real frame_width \<and> 0 \<le> snd c \<and> snd c < real frame_height)"

text \<open>
  \<open>_blend_seam\<close> builds the weights and blends the two sides of a seam twice, with the
  same statements; \<open>blend_regions\<close> is that block, \<open>overlap\<close> being \<open>left_overlap\<close> or
  \<open>right_overlap\<close>. The true division \<open>i / (overlap*2)\<close> runs only for \<open>i\<close> in a
  non-empty range, where the divisor is positive.
\<close>

definition ramp :: "nat \<Rightarrow> int \<Rightarrow> py_error + image" where
  "ramp h n =
     (if n < 0 then Inl ValueError
      else Inr \<lparr> shape0 = h, shape1 = nat n,
                 pixels = replicate h
                   (map (\<lambda>i. (real i / real_of_int n, real i / real_of_int n, real i / real_of_int n))
                      [0..<nat n]) \<rparr>)"

definition blend_regions :: "int \<Rightarrow> image \<Rightarrow> image \<Rightarrow> py_error + image" where
  "blend_regions overlap region1 region2 =
     ebind (ramp (shape0 region1) (overlap * 2)) (\<lambda>weight.
     ebind (broadcast pmul region1 (one_minus (cols None (Some overlap) weight))) (\<lambda>t1.
     ebind (broadcast pmul region2 (cols (Some overlap) None weight)) (\<lambda>t2.
       broadcast padd t1 t2)))"

definition blend_seam :: "insta360_processor \<Rightarrow> image \<Rightarrow> py_error + image" where
  "blend_seam p panorama =
     (let half_width = output_width p div 2;
          right_seam_center = half_width;
          left_overlap = overlap_width p div 2;
          left_region1 = cols (Some (- left_overlap)) None panorama;
          left_region2 = cols None (Some left_overlap) panorama
      in ebind (blend_regions left_overlap left_region1 left_region2) (\<lambda>blended_left.
           let right_overlap = overlap_width p div 2;
               right_seam_start = right_seam_center - right_overlap;
               right_seam_end = right_seam_center + right_overlap;
               right_region1 = cols (Some right_seam_start) (Some right_seam_center) panorama;
               right_region2 = cols (Some right_seam_center) (Some right_seam_end) panorama
           in ebind (blend_regions right_overlap right_region1 right_region2) (\<lambda>blended_right.
                ebind (assign_cols (Some (- left_overlap)) None
                         (cols None (Some left_overlap) blended_left) panorama) (\<lambda>result.
                ebind (assign_cols None (Some left_overlap)
                         (cols (Some left_overlap) None blended_left) result) (\<lambda>result.
                  assign_cols (Some right_seam_start) (Some right_seam_end)
                    (concatenate (cols None (Some right_overlap) blended_right)
                                 (cols (Some right_overlap) None blended_right)) result)))))"

text \<open>
  \<open>process_frame\<close>. \<open>cv2.remap\<close> and the two filters of \<open>advanced_processing\<close>, which are
  sequences of OpenCV calls, are parameters, as is the arithmetic \<open>fl\<close> of the mapping table.
\<close>

definition process_frame ::
  "'f float_ops
     \<Rightarrow> (image \<Rightarrow> real list list \<Rightarrow> real list list \<Rightarrow> py_error + image)
     \<Rightarrow> (image \<Rightarrow> py_error + image) \<Rightarrow> (image \<Rightarrow> py_error + image)
     \<Rightarrow> insta360_processor \<Rightarrow> image option
     \<Rightarrow> (py_error + image option) \<times> insta360_processor" where
  "process_frame fl remap equalize_brightness color_balance p fr =
     (case fr of
        None \<Rightarrow> (Inr None, p)
      | Some f \<Rightarrow>
          (case (if map_x p = None \<or> map_y p = None
                 then (case init_mapping_table fl p (shape0 f, shape1 f) of
                         Inl e \<Rightarrow> Inl e
                       | Inr (mx, my) \<Rightarrow> Inr (p\<lparr>map_x := Some mx, map_y := Some my\<rparr>))
                 else Inr p) of
             Inl e \<Rightarrow> (Inl e, p)
           | Inr p1 \<Rightarrow>
               (ebind (remap f (the (map_x p1)) (the (map_y p1))) (\<lambda>panorama.
                ebind (blend_seam p1 panorama) (\<lambda>panorama.
                ebind (if use_brightness_equalization p1
                       then equalize_brightness panorama else Inr panorama) (\<lambda>panorama.
                ebind (if use_color_balance p1
                       then color_balance panorama else Inr panorama) (\<lambda>panorama.
                  Inr (Some panorama))))),
                p1)))"

text \<open>A panorama in which every pixel has the colour \<open>c\<close>.\<close>

definition uniform :: "nat \<Rightarrow> nat \<Rightarrow> pixel \<Rightarrow> image" where
  "uniform h w c = \<lparr> shape0 = h, shape1 = w, pixels = replicate h (replicate w c) \<rparr>"


section \<open>advanced\_processing.py\<close>

text \<open>
  The calibration utilities. OpenCV's own functions are the fields of \<open>cv\<close>: the
  number of array dimensions of an image, the conversion to grey, the feature detector,
  the brute-force matcher and the homography estimator, which returns \<open>None\<close> when it
  finds no model. They are total; the exceptions the source itself can raise are in
  the model.
\<close>

record keypoint =
  pt :: "real \<times> real"

record dmatch =
  queryIdx :: nat
  trainIdx :: nat
  distance :: real

datatype detector = SIFT_create | ORB_create | AKAZE_create

datatype norm_type = NORM_L2 | NORM_HAMMING

record ('img, 'des, 'hom) cv2 =
  ndim :: "'img \<Rightarrow> nat"
  cvtColor :: "'img \<Rightarrow> 'img"
  detectAndCompute :: "detector \<Rightarrow> 'img \<Rightarrow> keypoint list \<times> 'des option"
  knnMatch :: "norm_type \<Rightarrow> 'des \<Rightarrow> 'des \<Rightarrow> dmatch list list"
  findHomography :: "(real \<times> real) list \<Rightarrow> (real \<times> real) list \<Rightarrow> 'hom option"

text \<open>\<open>str.lower\<close> on ASCII strings.\<close>

definition lower_char :: "char \<Rightarrow> char" where
  "lower_char c =
     (if 65 \<le> (of_char c :: nat) \<and> (of_char c :: nat) \<le> 90
      then char_of ((of_char c :: nat) + 32) else c)"

definition str_lower :: "string \<Rightarrow> string" where
  "str_lower s = map lower_char s"

text \<open>The chain that selects the detector, with its \<open>raise ValueError\<close>.\<close>

definition create_detector :: "string \<Rightarrow> py_error + detector" where
  "create_detector method =
     (if str_lower method = ''sift'' then Inr SIFT_create
      else if str_lower method = ''orb'' then Inr ORB_create
      else if str_lower method = ''akaze'' then Inr AKAZE_create
      else Inl ValueError)"

definition to_gray :: "('img, 'des, 'hom) cv2 \<Rightarrow> 'img \<Rightarrow> 'img" where
  "to_gray cv img = (if ndim cv img = 3 then cvtColor cv img else img)"

text \<open>
  Lowe's ratio test. \<open>for m, n in matches\<close> unpacks every entry into two matches and
  raises ValueError on an entry of another length.
\<close>

fun lowe_filter :: "dmatch list list \<Rightarrow> py_error + dmatch list" where
  "lowe_filter [] = Inr []"
| "lowe_filter ([m, n] # rest) =
     ebind (lowe_filter rest) (\<lambda>good.
       Inr (if distance m < 75 / 100 * distance n then m # good else good))"
| "lowe_filter (e # rest) = Inl ValueError"

definition detect_and_match_features ::
  "('img, 'des, 'hom) cv2 \<Rightarrow> 'img \<Rightarrow> 'img \<Rightarrow> string
     \<Rightarrow> py_error + (dmatch list \<times> keypoint list \<times> keypoint list)" where
  "detect_and_match_features cv img1 img2 method =
     (let gray1 = to_gray cv img1;
          gray2 = to_gray cv img2
      in ebind (create_detector method) (\<lambda>detector.
           case detectAndCompute cv detector gray1 of
             (kp1, des1) \<Rightarrow>
               (case detectAndCompute cv detector gray2 of
                  (kp2, des2) \<Rightarrow>
                    if des1 = None \<or> des2 = None \<or> length kp1 < 2 \<or> length kp2 < 2
                    then Inr ([], [], [])
                    else
                      let matcher = (if str_lower method = ''sift'' \<or> str_lower method = ''akaze''
                                     then NORM_L2 else NORM_HAMMING);
                          matches = knnMatch cv matcher (the des1) (the des2)
                      in ebind (lowe_filter matches) (\<lambda>good_matches.
                           Inr (good_matches, kp1, kp2)))))"

text \<open>\<open>kp[i].pt\<close> for each index, IndexError when an index is past the end.\<close>

fun points :: "keypoint list \<Rightarrow> nat list \<Rightarrow> py_error + (real \<times> real) list" where
  "points kp [] = Inr []"
| "points kp (i # is) =
     (if i < length kp
      then ebind (points kp is) (\<lambda>ps. Inr (pt (kp ! i) # ps))
      else Inl IndexError)"

definition find_homography ::
  "('img, 'des, 'hom) cv2 \<Rightarrow> keypoint list \<Rightarrow> keypoint list \<Rightarrow> dmatch list
     \<Rightarrow> py_error + 'hom option" where
  "find_homography cv kp1 kp2 good_matches =
     (if length good_matches < 4 then Inr None
      else
        ebind (points kp1 (map queryIdx good_matches)) (\<lambda>src_pts.
        ebind (points kp2 (map trainIdx good_matches)) (\<lambda>dst_pts.
          Inr (findHomography cv src_pts dst_pts))))"

section \<open>Verified properties\<close>

subsection \<open>The frame queue of RTMPStreamer\<close>

lemma push_frame_running:
  assumes "running s" and "fit resize s f = Inr g"
    and "maxsize (frame_queue s) = int C" and "0 < C"
    and "length (items (frame_queue s)) \<le> C"
  shows "push_frame resize s f =
           Inr (True, s\<lparr>frame_queue := (frame_queue s)\<lparr>items :=
                  drop (Suc (length (items (frame_queue s))) - C) (items (frame_queue s) @ [g])\<rparr>\<rparr>)"
proof (cases "length (items (frame_queue s)) = C")
  case True
  then obtain x xs where xs: "items (frame_queue s) = x # xs"
    using assms(4) by (cases "items (frame_queue s)") auto
  with True assms show ?thesis
    by (simp add: push_frame_def ebind_def evict_if_full_def q_full_def qsize_def
        get_nowait_def put_nowait_def Let_def)
next
  case False
  with assms have "length (items (frame_queue s)) < C" by simp
  with assms show ?thesis
    by (simp add: push_frame_def ebind_def evict_if_full_def q_full_def qsize_def
        get_nowait_def put_nowait_def Let_def)
qed

lemma fit_queue_irrelevant:
  "fit resize (s\<lparr>frame_queue := q\<rparr>) f = fit resize s f"
  by (simp add: fit_def)

lemma fit_all_queue_irrelevant:
  "fit_all resize (s\<lparr>frame_queue := q\<rparr>) fs = fit_all resize s fs"
  by (induction fs) (simp_all add: fit_queue_irrelevant)

lemma drop_last_window:
  assumes "0 < C" "length q \<le> C"
  shows "drop (length (drop (Suc (length q) - C) (q @ [g]) @ ys) - C) (drop (Suc (length q) - C) (q @ [g]) @ ys)
       = drop (length (q @ g # ys) - C) (q @ g # ys)"
  using assms by (cases "length q = C") (auto simp: Suc_diff_le)

lemma push_all_window:
  assumes "running s" and "maxsize (frame_queue s) = int C" and "0 < C"
    and "length (items (frame_queue s)) \<le> C"
    and "fit_all resize s fs = Inr gs"
  shows "\<exists>rs. push_all resize s fs = Inr rs \<and> length rs = length fs \<and> length gs = length fs \<and>
           (\<forall>k < length fs. fst (rs ! k) \<and>
              items (frame_queue (snd (rs ! k))) =
                drop (length (items (frame_queue s) @ take (Suc k) gs) - C)
                     (items (frame_queue s) @ take (Suc k) gs))"
  using assms
proof (induction fs arbitrary: s gs)
  case Nil
  then show ?case by (auto simp: ebind_def)
next
  case (Cons f fs)
  from Cons.prems(5) obtain g gs' where g: "fit resize s f = Inr g"
    and gs': "fit_all resize s fs = Inr gs'" and gs: "gs = g # gs'"
    by (auto simp: ebind_def split: sum.splits)
  let ?q = "items (frame_queue s)"
  let ?s' = "s\<lparr>frame_queue := (frame_queue s)\<lparr>items := drop (Suc (length ?q) - C) (?q @ [g])\<rparr>\<rparr>"
  have pf: "push_frame resize s f = Inr (True, ?s')"
    using push_frame_running [OF Cons.prems(1) g Cons.prems(2,3,4)] .
  have "\<exists>rs. push_all resize ?s' fs = Inr rs \<and> length rs = length fs \<and> length gs' = length fs \<and>
           (\<forall>k < length fs. fst (rs ! k) \<and>
              items (frame_queue (snd (rs ! k))) =
                drop (length (items (frame_queue ?s') @ take (Suc k) gs') - C)
                     (items (frame_queue ?s') @ take (Suc k) gs'))"
    using Cons.prems(1,2,3,4) gs'
    by (intro Cons.IH) (simp_all add: fit_all_queue_irrelevant)
  then obtain rs where rs: "push_all resize ?s' fs = Inr rs" "length rs = length fs"
    "length gs' = length fs"
    and win: "\<And>k. k < length fs \<Longrightarrow> fst (rs ! k) \<and>
              items (frame_queue (snd (rs ! k))) =
                drop (length (items (frame_queue ?s') @ take (Suc k) gs') - C)
                     (items (frame_queue ?s') @ take (Suc k) gs')"
    by blast
  have all: "push_all resize s (f # fs) = Inr ((True, ?s') # rs)"
    using pf rs(1) by (simp add: ebind_def)
  have "fst (((True, ?s') # rs) ! k) \<and>
        items (frame_queue (snd (((True, ?s') # rs) ! k))) =
          drop (length (?q @ take (Suc k) gs) - C) (?q @ take (Suc k) gs)"
    if "k < length (f # fs)" for k
  proof (cases k)
    case 0
    then show ?thesis by (simp add: gs)
  next
    case (Suc j)
    with that have j: "j < length fs" by simp
    from win [OF j] Suc show ?thesis
      using drop_last_window [OF Cons.prems(3,4), of g "take (Suc j) gs'"]
      by (simp add: gs)
  qed
  with all rs(2,3) gs show ?case by auto
qed


text \<open>
  Claim C3. A running streamer with an empty queue of capacity \<open>C\<close> and no consumer
  receives the frames \<open>fs\<close>, which enter the queue as \<open>gs\<close> (each frame at the
  target resolution). Every push returns \<open>True\<close>; after the push number \<open>k + 1\<close> the
  queue holds the most recent \<open>C\<close> of the first \<open>k + 1\<close> frames, oldest first, so its
  length never exceeds \<open>C\<close>; at the end it holds the most recent \<open>C\<close> frames in FIFO
  order. The model is a total function: no push blocks.
\<close>

theorem push_frame_drop_oldest:
  assumes "running s" and "items (frame_queue s) = []"
    and "maxsize (frame_queue s) = int C" and "0 < C"
    and "fit_all resize s fs = Inr gs"
  shows "\<exists>rs. push_all resize s fs = Inr rs \<and> length rs = length fs \<and>
           (\<forall>k < length fs.
              fst (rs ! k) \<and>
              items (frame_queue (snd (rs ! k))) = drop (Suc k - C) (take (Suc k) gs) \<and>
              length (items (frame_queue (snd (rs ! k)))) \<le> C) \<and>
           (fs \<noteq> [] \<longrightarrow> items (frame_queue (snd (last rs))) = drop (length fs - C) gs)"
proof -
  have le: "length (items (frame_queue s)) \<le> C"
    using assms(2) by simp
  from push_all_window [OF assms(1,3,4) le assms(5)]
  obtain rs where rs: "push_all resize s fs = Inr rs" "length rs = length fs"
    "length gs = length fs"
    and raw: "\<forall>k < length fs. fst (rs ! k) \<and>
                items (frame_queue (snd (rs ! k))) =
                  drop (length (items (frame_queue s) @ take (Suc k) gs) - C)
                       (items (frame_queue s) @ take (Suc k) gs)"
    by blast
  have win: "fst (rs ! k) \<and>
             items (frame_queue (snd (rs ! k))) = drop (Suc k - C) (take (Suc k) gs)"
    if "k < length fs" for k
  proof -
    from that rs(3) have "length (take (Suc k) gs) = Suc k" by simp
    with raw that assms(2) show ?thesis by simp
  qed
  have len: "length (items (frame_queue (snd (rs ! k)))) \<le> C" if "k < length fs" for k
    using win [OF that] rs(3) that by simp
  have fin: "items (frame_queue (snd (last rs))) = drop (length fs - C) gs" if "fs \<noteq> []"
  proof -
    from that rs(2) have ne: "rs \<noteq> []" by auto
    have k: "length fs - 1 < length fs" using that by simp
    have "last rs = rs ! (length fs - 1)"
      using ne rs(2) by (simp add: last_conv_nth)
    with win [OF k] rs(3) that show ?thesis by simp
  qed
  from rs(1,2) win len fin show ?thesis by blast
qed

text \<open>
  The streamer as its constructor builds it (capacity 10), started, receiving twelve
  frames tagged 0 to 11: the queue ends with the tags 2 to 11.
\<close>

theorem push_frame_drop_oldest_witness:
  "\<exists>rs. push_all (\<lambda>f sz. Inr f) (streamer_start (rtmp_streamer_init ''rtmp://host/live'' 2 1 30 ''4000k''))
          (map (\<lambda>n. \<lparr>shape0 = 1, shape1 = 2, pixels = [[(n, 0, 0), (n, 0, 0)]]\<rparr>)
               [0, 1, 2, 3, 4, 5, 6, 7, 8, 9, 10, 11])
        = Inr rs \<and>
        length rs = 12 \<and>
        (\<forall>k < 12. fst (rs ! k) \<and> length (items (frame_queue (snd (rs ! k)))) \<le> 10) \<and>
        items (frame_queue (snd (last rs))) =
          map (\<lambda>n. \<lparr>shape0 = 1, shape1 = 2, pixels = [[(n, 0, 0), (n, 0, 0)]]\<rparr>)
              [2, 3, 4, 5, 6, 7, 8, 9, 10, 11]"
proof -
  let ?s = "streamer_start (rtmp_streamer_init ''rtmp://host/live'' 2 1 30 ''4000k'')"
  let ?R = "\<lambda>(f::image) (sz::int \<times> int). (Inr f :: py_error + image)"
  let ?tag = "\<lambda>n::real. \<lparr>shape0 = 1, shape1 = 2, pixels = [[(n, 0, 0), (n, 0, 0)]]\<rparr>"
  let ?fs = "map ?tag [0, 1, 2, 3, 4, 5, 6, 7, 8, 9, 10, 11]"
  have r: "running ?s" by (simp add: streamer_start_def rtmp_streamer_init_def)
  have e: "items (frame_queue ?s) = []" by (simp add: streamer_start_def rtmp_streamer_init_def)
  have m: "maxsize (frame_queue ?s) = int 10" by (simp add: streamer_start_def rtmp_streamer_init_def)
  have c: "0 < (10::nat)" by simp
  have f1: "fit ?R ?s f = Inr f" if "shape0 f = 1" "shape1 f = 2" for f
    using that by (simp add: fit_def streamer_start_def rtmp_streamer_init_def)
  have fa: "fit_all ?R ?s (map ?tag ns) = Inr (map ?tag ns)" for ns
    by (induction ns) (simp_all add: f1 ebind_def)
  from push_frame_drop_oldest [OF r e m c fa]
  obtain rs where rs: "push_all ?R ?s ?fs = Inr rs" "length rs = length ?fs"
    and win: "\<forall>k < length ?fs. fst (rs ! k) \<and>
                items (frame_queue (snd (rs ! k))) = drop (Suc k - 10) (take (Suc k) ?fs) \<and>
                length (items (frame_queue (snd (rs ! k)))) \<le> 10"
    and fin: "?fs \<noteq> [] \<longrightarrow> items (frame_queue (snd (last rs))) = drop (length ?fs - 10) ?fs"
    by blast
  from fin have last: "items (frame_queue (snd (last rs))) =
      map ?tag [2, 3, 4, 5, 6, 7, 8, 9, 10, 11]"
    by simp
  have l: "length ?fs = 12" by simp
  have len: "length rs = 12" using rs(2) l by (simp only:)
  have "\<forall>k < length ?fs. fst (rs ! k) \<and> length (items (frame_queue (snd (rs ! k)))) \<le> 10"
    using win by blast
  then have bound: "\<forall>k < 12. fst (rs ! k) \<and> length (items (frame_queue (snd (rs ! k)))) \<le> 10"
    by (simp only: l)
  from rs(1) len bound last show ?thesis by blast
qed

text \<open>
  Claim C7. On a streamer that is not running, \<open>push_frame\<close> returns \<open>False\<close> and
  the streamer is unchanged: \<open>resize\<close> is not called, nothing is enqueued or evicted.
\<close>

theorem push_frame_not_running:
  "\<not> running s \<Longrightarrow> push_frame resize s f = Inr (False, s)"
  by (simp add: push_frame_def)

text \<open>A freshly constructed streamer has not been started; the resize would have raised.\<close>

theorem push_frame_not_running_witness:
  "\<not> running (rtmp_streamer_init ''rtmp://host/live'' 3840 1920 30 ''4000k'') \<and>
   push_frame (\<lambda>f sz. Inl ValueError) (rtmp_streamer_init ''rtmp://host/live'' 3840 1920 30 ''4000k'')
       \<lparr>shape0 = 1, shape1 = 1, pixels = [[(7, 7, 7)]]\<rparr>
     = Inr (False, rtmp_streamer_init ''rtmp://host/live'' 3840 1920 30 ''4000k'')"
proof -
  have n: "\<not> running (rtmp_streamer_init ''rtmp://host/live'' 3840 1920 30 ''4000k'')"
    by (simp add: rtmp_streamer_init_def)
  show ?thesis
    using n push_frame_not_running [OF n] by simp
qed

subsection \<open>Shutdown\<close>

lemma drain_empty: "drain xs = []"
  by (induction xs) simp_all

lemma streamer_stop_before_start:
  "streamer_stop joined (rtmp_streamer_init url w h f b) = rtmp_streamer_init url w h f b"
  by (simp add: streamer_stop_def rtmp_streamer_init_def Let_def)

lemma streamer_stop_twice:
  "streamer_stop j2 (streamer_stop j1 s) =
     (streamer_stop j1 s)\<lparr>thread :=
        (case thread s of
           None \<Rightarrow> None
         | Some t \<Rightarrow> Some (Thread (is_alive t \<and> \<not> j1 \<and> \<not> j2)))\<rparr>"
  by (cases "thread s"; cases "process s") (simp_all add: streamer_stop_def Let_def drain_empty)

lemma processor_stop_after_start:
  "processor_stop (snd (processor_start True (insta360_processor_init loaded idx w h)))
     = (Inr (), (insta360_processor_init loaded idx w h)
          \<lparr>cap := Some (VideoCapture False), processor_thread := Holds (Some (Thread False))\<rparr>)"
  by (simp add: processor_stop_def processor_start_def insta360_processor_init_def getattr_def Let_def)

lemma processor_stop_failed_start:
  "processor_stop (snd (processor_start False (insta360_processor_init loaded idx w h)))
     = (Inl AttributeError,
        (insta360_processor_init loaded idx w h)\<lparr>cap := Some (VideoCapture False)\<rparr>)"
  by (simp add: processor_stop_def processor_start_def insta360_processor_init_def getattr_def Let_def)

text \<open>
  Claim C5 says that \<open>stop()\<close> before \<open>start()\<close> never raises, for both classes. The
  streamer's constructor sets \<open>thread\<close> to \<open>None\<close> and its \<open>stop\<close> returns
  (\<open>streamer_stop_before_start\<close>). The processor's constructor never assigns \<open>thread\<close>,
  so \<open>stop\<close> on a processor that was never started raises AttributeError at
  \<open>self.thread\<close>, after it has cleared \<open>running\<close>.
\<close>

theorem processor_stop_before_start:
  "processor_stop (insta360_processor_init loaded idx w h)
     = (Inl AttributeError,
        (insta360_processor_init loaded idx w h)\<lparr>processor_running := False\<rparr>)"
  by (simp add: processor_stop_def insta360_processor_init_def getattr_def Let_def)

subsection \<open>Pacing of the consumer loop\<close>

text \<open>
  Claim C6. While the streamer runs and the encoder is alive, an iteration that finds a
  frame takes the oldest one, sleeps for the time left until the deadline when the
  deadline is still ahead of the clock, sets the next deadline to the larger of the
  clock and the old deadline plus \<open>1 / fps\<close>, and writes the frame; an iteration that
  finds the queue empty sleeps for a millisecond and changes nothing else, the
  deadline included.
\<close>

theorem stream_iteration_pacing:
  assumes "running (streamer l)" and "process (streamer l) = Some (Popen True)"
    and "frame_time_of (streamer l) = Inr frame_time"
  shows "(items (frame_queue (streamer l)) = f # rest \<longrightarrow>
            stream_iteration frame_time t1 t2 l =
              Next \<lparr> streamer = (streamer l)\<lparr>frame_queue := (frame_queue (streamer l))\<lparr>items := rest\<rparr>\<rparr>,
                     next_frame_time = max t2 (next_frame_time l + 1 / real_of_int (fps (streamer l))),
                     slept = slept l @ (if t1 < next_frame_time l then [next_frame_time l - t1] else []),
                     stdin = stdin l @ [f] \<rparr>)
       \<and> (items (frame_queue (streamer l)) = [] \<longrightarrow>
            stream_iteration frame_time t1 t2 l = Next (l\<lparr>slept := slept l @ [1 / 1000]\<rparr>))"
proof -
  from assms(3) have ft: "frame_time = 1 / real_of_int (fps (streamer l))"
    by (simp add: frame_time_of_def split: if_splits)
  from assms(1,2) show ?thesis
    unfolding ft
    by (cases l) (simp add: stream_iteration_def q_empty_def get_nowait_def time_sleep_def Let_def)
qed

text \<open>
  A started streamer at 30 frames per second with a live encoder, the deadline at 4.5
  and the clock reading 4 and then 5: with two frames queued the loop sleeps half a
  second, emits the older frame and moves the deadline to 5; with nothing queued it
  sleeps a millisecond and keeps the deadline.
\<close>

theorem stream_iteration_pacing_witness:
  "stream_iteration (1 / 30) 4 5
     \<lparr> streamer = (streamer_start (rtmp_streamer_init ''rtmp://host/live'' 1 1 30 ''4000k''))
                     \<lparr>frame_queue := \<lparr>maxsize = 10, items = [uniform 1 1 (7, 7, 7), uniform 1 1 (8, 8, 8)]\<rparr>,
                      process := Some (Popen True)\<rparr>,
       next_frame_time = 9 / 2, slept = [], stdin = [] \<rparr>
   = Next \<lparr> streamer = (streamer_start (rtmp_streamer_init ''rtmp://host/live'' 1 1 30 ''4000k''))
                     \<lparr>frame_queue := \<lparr>maxsize = 10, items = [uniform 1 1 (8, 8, 8)]\<rparr>,
                      process := Some (Popen True)\<rparr>,
            next_frame_time = 5, slept = [1 / 2], stdin = [uniform 1 1 (7, 7, 7)] \<rparr>
   \<and> stream_iteration (1 / 30) 4 5
     \<lparr> streamer = (streamer_start (rtmp_streamer_init ''rtmp://host/live'' 1 1 30 ''4000k''))
                     \<lparr>process := Some (Popen True)\<rparr>,
       next_frame_time = 9 / 2, slept = [], stdin = [] \<rparr>
   = Next \<lparr> streamer = (streamer_start (rtmp_streamer_init ''rtmp://host/live'' 1 1 30 ''4000k''))
                     \<lparr>process := Some (Popen True)\<rparr>,
            next_frame_time = 9 / 2, slept = [1 / 1000], stdin = [] \<rparr>"
proof -
  let ?s0 = "(streamer_start (rtmp_streamer_init ''rtmp://host/live'' 1 1 30 ''4000k''))
               \<lparr>process := Some (Popen True)\<rparr>"
  let ?s1 = "(streamer_start (rtmp_streamer_init ''rtmp://host/live'' 1 1 30 ''4000k''))
                     \<lparr>frame_queue := \<lparr>maxsize = 10, items = [uniform 1 1 (7, 7, 7), uniform 1 1 (8, 8, 8)]\<rparr>,
                      process := Some (Popen True)\<rparr>"
  let ?l1 = "\<lparr> streamer = ?s1, next_frame_time = 9 / 2, slept = [], stdin = [] \<rparr>"
  let ?l0 = "\<lparr> streamer = ?s0, next_frame_time = 9 / 2, slept = [], stdin = [] \<rparr>"
  have r1: "running (streamer ?l1)" and p1: "process (streamer ?l1) = Some (Popen True)"
    and f1: "frame_time_of (streamer ?l1) = Inr (1 / 30)"
    by (simp_all add: streamer_start_def rtmp_streamer_init_def frame_time_of_def)
  have r0: "running (streamer ?l0)" and p0: "process (streamer ?l0) = Some (Popen True)"
    and f0: "frame_time_of (streamer ?l0) = Inr (1 / 30)"
    by (simp_all add: streamer_start_def rtmp_streamer_init_def frame_time_of_def)
  have a: "items (frame_queue (streamer ?l1)) = uniform 1 1 (7, 7, 7) # [uniform 1 1 (8, 8, 8)]"
    by simp
  have b: "items (frame_queue (streamer ?l0)) = []"
    by (simp add: streamer_start_def rtmp_streamer_init_def)
  from stream_iteration_pacing [OF r1 p1 f1, of "uniform 1 1 (7, 7, 7)" "[uniform 1 1 (8, 8, 8)]" 4 5] a
  have A: "stream_iteration (1 / 30) 4 5 ?l1 =
     Next \<lparr> streamer = ?s1\<lparr>frame_queue := (frame_queue ?s1)\<lparr>items := [uniform 1 1 (8, 8, 8)]\<rparr>\<rparr>,
            next_frame_time = max 5 (9 / 2 + 1 / real_of_int (fps ?s1)),
            slept = [] @ (if (4::real) < 9 / 2 then [9 / 2 - 4] else []),
            stdin = [] @ [uniform 1 1 (7, 7, 7)] \<rparr>"
    by simp
  from stream_iteration_pacing [OF r0 p0 f0, of "uniform 1 1 (7, 7, 7)" "[]" 4 5] b
  have B: "stream_iteration (1 / 30) 4 5 ?l0 = Next (?l0\<lparr>slept := slept ?l0 @ [1 / 1000]\<rparr>)"
    by blast
  have fp: "fps ?s1 = 30" by (simp add: streamer_start_def rtmp_streamer_init_def)
  show ?thesis
    unfolding A B fp by (simp add: streamer_start_def rtmp_streamer_init_def)
qed

subsection \<open>Frames that are None\<close>

text \<open>
  Claim C10. \<open>process_frame\<close> on \<open>None\<close> returns \<open>None\<close> and the processor is
  unchanged: no mapping table is built, and neither the remap, the seam blend nor a
  filter runs, whatever they and the arithmetic are.
\<close>

theorem process_frame_none:
  "process_frame fl remap equalize_brightness color_balance p None = (Inr None, p)"
  by (simp add: process_frame_def)

subsection \<open>The seam blend\<close>

text \<open>
  Widths of the arrays that \<open>_blend_seam\<close> builds. The blended seam has the width of
  one side of the window (\<open>overlap\<close> columns), not of the whole window.
\<close>

lemma ebind_Inr: "ebind m f = Inr r \<longleftrightarrow> (\<exists>v. m = Inr v \<and> f v = Inr r)"
  by (cases m) (simp_all add: ebind_def)

lemma ebind_Inl: "ebind m f = Inl e \<longleftrightarrow> (m = Inl e \<or> (\<exists>v. m = Inr v \<and> f v = Inl e))"
  by (cases m) (simp_all add: ebind_def)

lemma broadcast_Inr:
  "broadcast f a b = Inr c \<Longrightarrow>
     (shape1 a = shape1 b \<or> shape1 a = 1 \<or> shape1 b = 1) \<and>
     shape1 c = (if shape1 a = 1 then shape1 b else shape1 a)"
  by (auto simp: broadcast_def split: if_splits)

lemma broadcast_Inl: "broadcast f a b = Inl e \<Longrightarrow> e = ValueError"
  by (auto simp: broadcast_def split: if_splits)

lemma ramp_Inr: "ramp h n = Inr w \<Longrightarrow> 0 \<le> n \<and> shape1 w = nat n"
  by (auto simp: ramp_def split: if_splits)

lemma ramp_Inl: "ramp h n = Inl e \<Longrightarrow> e = ValueError"
  by (auto simp: ramp_def split: if_splits)

lemma shape1_cols:
  "shape1 (cols a b img) = snd (slice_bounds a b (shape1 img)) - fst (slice_bounds a b (shape1 img))"
  by (simp add: cols_def split: prod.splits)

lemma shape1_one_minus: "shape1 (one_minus a) = shape1 a"
  by (simp add: one_minus_def)

lemma assign_cols_Inr:
  "assign_cols a b v r = Inr r' \<Longrightarrow>
     shape1 r' = shape1 r \<and>
     (shape1 v = snd (slice_bounds a b (shape1 r)) - fst (slice_bounds a b (shape1 r)) \<or> shape1 v = 1)"
  by (auto simp: assign_cols_def split: prod.splits if_splits)

lemma assign_cols_Inl: "assign_cols a b v r = Inl e \<Longrightarrow> e = ValueError"
  by (auto simp: assign_cols_def split: prod.splits if_splits)

lemma slice_head: "0 \<le> k \<Longrightarrow> slice_bounds None (Some k) n = (0, min (nat k) n)"
  by (auto simp: slice_bounds_def Let_def min_def max_def)

lemma slice_tail: "0 \<le> k \<Longrightarrow> slice_bounds (Some k) None n = (min (nat k) n, n)"
  by (auto simp: slice_bounds_def Let_def min_def max_def)

lemma slice_last: "0 < k \<Longrightarrow> slice_bounds (Some (- k)) None n = (n - nat k, n)"
  by (auto simp: slice_bounds_def Let_def min_def max_def)

lemma slice_whole: "slice_bounds (Some (- 0)) None n = (0, n)"
  by (auto simp: slice_bounds_def Let_def min_def max_def)

lemma blend_regions_Inr:
  assumes "blend_regions ov r1 r2 = Inr b"
  shows "0 \<le> ov"
    and "shape1 r1 = nat ov \<or> shape1 r1 = 1 \<or> nat ov = 1"
    and "shape1 r2 = nat ov \<or> shape1 r2 = 1 \<or> nat ov = 1"
    and "shape1 r1 \<noteq> 0 \<Longrightarrow> shape1 r2 \<noteq> 0 \<Longrightarrow> shape1 r1 \<le> nat ov \<Longrightarrow> shape1 r2 \<le> nat ov
           \<Longrightarrow> shape1 b = nat ov"
    and "ov = 0 \<Longrightarrow> shape1 b = 0"
proof -
  from assms obtain w t1 t2 where w: "ramp (shape0 r1) (ov * 2) = Inr w"
    and t1: "broadcast pmul r1 (one_minus (cols None (Some ov) w)) = Inr t1"
    and t2: "broadcast pmul r2 (cols (Some ov) None w) = Inr t2"
    and b: "broadcast padd t1 t2 = Inr b"
    by (auto simp: blend_regions_def ebind_Inr)
  from ramp_Inr [OF w] have ov: "0 \<le> ov" and sw: "shape1 w = nat (ov * 2)" by auto
  have w1: "shape1 (one_minus (cols None (Some ov) w)) = nat ov"
    using ov by (simp add: shape1_one_minus shape1_cols slice_head sw min_def nat_mult_distrib)
  have w2: "shape1 (cols (Some ov) None w) = nat ov"
    using ov by (simp add: shape1_cols slice_tail sw min_def nat_mult_distrib)
  note B1 = broadcast_Inr [OF t1, unfolded w1]
  note B2 = broadcast_Inr [OF t2, unfolded w2]
  note B3 = broadcast_Inr [OF b]
  show "0 \<le> ov" by (rule ov)
  show "shape1 r1 = nat ov \<or> shape1 r1 = 1 \<or> nat ov = 1" using B1 by blast
  show "shape1 r2 = nat ov \<or> shape1 r2 = 1 \<or> nat ov = 1" using B2 by blast
  show "shape1 b = nat ov"
    if "shape1 r1 \<noteq> 0" "shape1 r2 \<noteq> 0" "shape1 r1 \<le> nat ov" "shape1 r2 \<le> nat ov"
    using B1 B2 B3 that by (auto split: if_splits)
  show "shape1 b = 0" if "ov = 0"
    using B1 B2 B3 that by (auto split: if_splits)
qed

lemma blend_regions_Inl: "blend_regions ov r1 r2 = Inl e \<Longrightarrow> e = ValueError"
  by (auto simp: blend_regions_def ebind_Inl dest: ramp_Inl broadcast_Inl)

lemma blend_seam_Inl: "blend_seam p panorama = Inl e \<Longrightarrow> e = ValueError"
  by (auto simp: blend_seam_def Let_def ebind_Inl dest: blend_regions_Inl assign_cols_Inl)

lemma blend_seam_not_Inr:
  assumes W: "0 < shape1 panorama"
  shows "blend_seam p panorama \<noteq> Inr res"
proof
  assume "blend_seam p panorama = Inr res"
  let ?lo = "overlap_width p div 2"
  let ?W = "shape1 panorama"
  from \<open>blend_seam p panorama = Inr res\<close>
  obtain bl res1 res2 where
    bl: "blend_regions ?lo (cols (Some (- ?lo)) None panorama) (cols None (Some ?lo) panorama) = Inr bl"
    and a1: "assign_cols (Some (- ?lo)) None (cols None (Some ?lo) bl) panorama = Inr res1"
    and a2: "assign_cols None (Some ?lo) (cols (Some ?lo) None bl) res1 = Inr res2"
    by (auto simp: blend_seam_def Let_def ebind_Inr)
  note R = blend_regions_Inr [OF bl]
  have lo: "0 \<le> ?lo" by (rule R(1))
  show False
  proof (cases "?lo = 0")
    case True
    from R(5) [OF True] have b0: "shape1 bl = 0" .
    from assign_cols_Inr [OF a1] W show False
      by (simp add: True shape1_cols slice_head slice_whole [simplified] b0)
  next
    case False
    with lo have pos: "0 < ?lo" by simp
    have r1: "shape1 (cols (Some (- ?lo)) None panorama) = min (nat ?lo) ?W"
      using pos by (simp add: shape1_cols slice_last min_def)
    have r2: "shape1 (cols None (Some ?lo) panorama) = min (nat ?lo) ?W"
      using lo by (simp add: shape1_cols slice_head)
    have bw: "shape1 bl = nat ?lo"
      using R(4) W pos by (simp add: r1 r2)
    from assign_cols_Inr [OF a1] have s1: "shape1 res1 = ?W" by simp
    from assign_cols_Inr [OF a2] W pos show False
      by (simp add: s1 shape1_cols slice_tail slice_head lo bw min_def split: if_splits)
  qed
qed

text \<open>
  Claim C8 says that \<open>_blend_seam\<close> returns an image of the input's dimensions that
  agrees with the input outside the two seam windows. It returns nothing: for every
  panorama with at least one column the function raises ValueError. With a positive
  \<open>overlap_width // 2\<close> the statement \<open>result[:, :left_overlap] = blended_left[:, left_overlap:]\<close>
  assigns an empty array to a window that is not empty; with \<open>overlap_width // 2 = 0\<close>
  the slice \<open>panorama[:, -0:]\<close> is the whole panorama and cannot be combined with the
  empty weights, or, for a width of one, cannot be assigned back; a negative
  \<open>overlap_width\<close> gives the weights a negative dimension.
\<close>

theorem blend_seam_raises:
  "0 < shape1 panorama \<Longrightarrow> blend_seam p panorama = Inl ValueError"
  using blend_seam_not_Inr [of panorama p] blend_seam_Inl [of p panorama]
  by (cases "blend_seam p panorama") auto

theorem blend_seam_raises_witness:
  "0 < shape1 \<lparr>shape0 = 1, shape1 = 4, pixels = [[(1, 2, 3), (4, 5, 6), (7, 8, 9), (10, 11, 12)]]\<rparr> \<and>
   blend_seam ((insta360_processor_init None 0 4 1)\<lparr>overlap_width := 2\<rparr>)
     \<lparr>shape0 = 1, shape1 = 4, pixels = [[(1, 2, 3), (4, 5, 6), (7, 8, 9), (10, 11, 12)]]\<rparr>
   = Inl ValueError"
proof -
  have w: "0 < shape1 \<lparr>shape0 = 1, shape1 = 4, pixels = [[(1, 2, 3), (4, 5, 6), (7, 8, 9), (10, 11, 12)]]\<rparr>"
    by simp
  from w blend_seam_raises [OF w] show ?thesis by blast
qed

text \<open>
  Claim C4 says that blending a panorama of one colour returns that colour. A processor
  built for an output 20 pixels wide has \<open>overlap_width = 2\<close>. On a panorama of that
  width in which every channel of every pixel is 100, the blended left seam is 150 in
  every channel: the two weights of a column are \<open>1 - i / (2 * overlap)\<close> and
  \<open>(i + overlap) / (2 * overlap)\<close>, which add up to 3/2 and not to 1. Then the
  assignment of the seam raises ValueError, so no panorama is returned.
\<close>

theorem blend_seam_uniform_raises:
  "overlap_width (insta360_processor_init None 0 20 1) = 2 \<and>
   blend_regions 1 (cols (Some (- 1)) None (uniform 1 20 (100, 100, 100)))
                   (cols None (Some 1) (uniform 1 20 (100, 100, 100)))
     = Inr (uniform 1 1 (150, 150, 150)) \<and>
   blend_seam (insta360_processor_init None 0 20 1) (uniform 1 20 (100, 100, 100))
     = Inl ValueError"
proof (intro conjI)
  show "overlap_width (insta360_processor_init None 0 20 1) = 2"
    by (simp add: insta360_processor_init_def py_int_def)
  show "blend_regions 1 (cols (Some (- 1)) None (uniform 1 20 (100, 100, 100)))
                        (cols None (Some 1) (uniform 1 20 (100, 100, 100)))
          = Inr (uniform 1 1 (150, 150, 150))"
    by (simp add: blend_regions_def uniform_def cols_def slice_bounds_def ramp_def broadcast_def
        ebind_def one_minus_def pmul_def padd_def Let_def upt_conv_Cons)
  have "0 < shape1 (uniform 1 20 (100, 100, 100))"
    by (simp add: uniform_def)
  from blend_seam_not_Inr [OF this] show
    "blend_seam (insta360_processor_init None 0 20 1) (uniform 1 20 (100, 100, 100)) = Inl ValueError"
    using blend_seam_Inl [of "insta360_processor_init None 0 20 1" "uniform 1 20 (100, 100, 100)"]
    by (cases "blend_seam (insta360_processor_init None 0 20 1) (uniform 1 20 (100, 100, 100))") auto
qed

subsection \<open>The mapping table\<close>

lemma pixel_step_src_pixel:
  "pixel_step fl p h w y x maps =
     (case src_pixel fl p h w y x of
        None \<Rightarrow> maps
      | Some (a, b) \<Rightarrow> (store y x (float32 fl a) (fst maps), store y x (float32 fl b) (snd maps)))"
  by (simp add: pixel_step_def src_pixel_def Let_def)

lemma store_length [simp]: "length (store y x v m) = length m"
  by (simp add: store_def)

lemma store_row_length [simp]: "length (store y x v m ! y') = length (m ! y')"
  by (cases "y < length m"; cases "y' = y") (simp_all add: store_def list_update_beyond)

lemma store_nth:
  "y' < length m \<Longrightarrow> x' < length (m ! y') \<Longrightarrow>
     store y x v m ! y' ! x' = (if y' = y \<and> x' = x then v else m ! y' ! x')"
  by (cases "y' = y"; cases "x' = x") (simp_all add: store_def)

lemma fill_row:
  fixes g :: "nat \<Rightarrow> real option"
  shows "length (fold (\<lambda>x m. case g x of None \<Rightarrow> m | Some v \<Rightarrow> store y x v m) xs m) = length m
       \<and> (\<forall>y'. length (fold (\<lambda>x m. case g x of None \<Rightarrow> m | Some v \<Rightarrow> store y x v m) xs m ! y')
                 = length (m ! y'))
       \<and> (\<forall>y' x'. y' < length m \<longrightarrow> x' < length (m ! y') \<longrightarrow>
             fold (\<lambda>x m. case g x of None \<Rightarrow> m | Some v \<Rightarrow> store y x v m) xs m ! y' ! x'
               = (if y' = y \<and> x' \<in> set xs
                  then (case g x' of None \<Rightarrow> m ! y' ! x' | Some v \<Rightarrow> v)
                  else m ! y' ! x'))"
proof (induction xs rule: rev_induct)
  case Nil
  show ?case by simp
next
  case (snoc x xs)
  then show ?case
    by (cases "g x") (auto simp: store_nth split: option.splits)
qed

lemma fill_table:
  fixes g :: "nat \<Rightarrow> nat \<Rightarrow> real option"
  shows "length (fold (\<lambda>y. fold (\<lambda>x m. case g y x of None \<Rightarrow> m | Some v \<Rightarrow> store y x v m) xs) ys m)
           = length m
       \<and> (\<forall>y'. length (fold (\<lambda>y. fold (\<lambda>x m. case g y x of None \<Rightarrow> m | Some v \<Rightarrow> store y x v m) xs) ys m ! y')
                 = length (m ! y'))
       \<and> (\<forall>y' x'. y' < length m \<longrightarrow> x' < length (m ! y') \<longrightarrow>
             fold (\<lambda>y. fold (\<lambda>x m. case g y x of None \<Rightarrow> m | Some v \<Rightarrow> store y x v m) xs) ys m ! y' ! x'
               = (if y' \<in> set ys \<and> x' \<in> set xs
                  then (case g y' x' of None \<Rightarrow> m ! y' ! x' | Some v \<Rightarrow> v)
                  else m ! y' ! x'))"
proof (induction ys rule: rev_induct)
  case Nil
  show ?case by simp
next
  case (snoc y ys)
  let ?T = "fold (\<lambda>y. fold (\<lambda>x m. case g y x of None \<Rightarrow> m | Some v \<Rightarrow> store y x v m) xs) ys m"
  from fill_row [where g = "g y" and y = y and xs = xs and m = ?T] snoc.IH
  show ?case
    by (auto split: option.splits)
qed

lemma fold_pixel_step_row:
  "fold (pixel_step fl p h w y) xs (mx, my) =
     (fold (\<lambda>x m. case map_option (float32 fl \<circ> fst) (src_pixel fl p h w y x) of
                      None \<Rightarrow> m | Some v \<Rightarrow> store y x v m) xs mx,
      fold (\<lambda>x m. case map_option (float32 fl \<circ> snd) (src_pixel fl p h w y x) of
                      None \<Rightarrow> m | Some v \<Rightarrow> store y x v m) xs my)"
  by (induction xs arbitrary: mx my) (auto simp: pixel_step_src_pixel split: option.splits)

lemma fold_pixel_step_table:
  "fold (\<lambda>y. fold (pixel_step fl p h w y) xs) ys (mx, my) =
     (fold (\<lambda>y. fold (\<lambda>x m. case map_option (float32 fl \<circ> fst) (src_pixel fl p h w y x) of
                               None \<Rightarrow> m | Some v \<Rightarrow> store y x v m) xs) ys mx,
      fold (\<lambda>y. fold (\<lambda>x m. case map_option (float32 fl \<circ> snd) (src_pixel fl p h w y x) of
                               None \<Rightarrow> m | Some v \<Rightarrow> store y x v m) xs) ys my)"
  by (induction ys arbitrary: mx my) (simp_all add: fold_pixel_step_row)

lemma table_entries:
  assumes "x < nat (output_width p)" and "y < nat (output_height p)"
  shows "\<exists>mx my. init_mapping_table fl p (h, w) = Inr (mx, my) \<and>
           mx ! y ! x = (case src_pixel fl p h w y x of None \<Rightarrow> 0 | Some (a, b) \<Rightarrow> float32 fl a) \<and>
           my ! y ! x = (case src_pixel fl p h w y x of None \<Rightarrow> 0 | Some (a, b) \<Rightarrow> float32 fl b)"
proof -
  let ?W = "nat (output_width p)" and ?H = "nat (output_height p)"
  let ?Z = "replicate ?H (replicate ?W (0::real))"
  let ?gx = "\<lambda>y x. map_option (float32 fl \<circ> fst) (src_pixel fl p h w y x)"
  let ?gy = "\<lambda>y x. map_option (float32 fl \<circ> snd) (src_pixel fl p h w y x)"
  let ?mx = "fold (\<lambda>y. fold (\<lambda>x m. case ?gx y x of None \<Rightarrow> m | Some v \<Rightarrow> store y x v m) [0..<?W]) [0..<?H] ?Z"
  let ?my = "fold (\<lambda>y. fold (\<lambda>x m. case ?gy y x of None \<Rightarrow> m | Some v \<Rightarrow> store y x v m) [0..<?W]) [0..<?H] ?Z"
  from assms have nonneg: "\<not> (output_height p < 0 \<or> output_width p < 0)" by auto
  have run: "init_mapping_table fl p (h, w) = Inr (?mx, ?my)"
    using nonneg by (simp add: init_mapping_table_def np_zeros_def ebind_def fold_pixel_step_table)
  have zy: "y < length ?Z" and zx: "x < length (?Z ! y)"
    using assms by simp_all
  have inH: "y \<in> set [0..<?H]" and inW: "x \<in> set [0..<?W]"
    using assms by simp_all
  have z0: "?Z ! y ! x = 0"
    using assms by simp
  have "\<forall>y' x'. y' < length ?Z \<longrightarrow> x' < length (?Z ! y') \<longrightarrow>
          ?mx ! y' ! x' = (if y' \<in> set [0..<?H] \<and> x' \<in> set [0..<?W]
                           then (case ?gx y' x' of None \<Rightarrow> ?Z ! y' ! x' | Some v \<Rightarrow> v)
                           else ?Z ! y' ! x')"
    using fill_table [where g = ?gx and xs = "[0..<?W]" and ys = "[0..<?H]" and m = ?Z]
    by blast
  with zy zx have "?mx ! y ! x = (if y \<in> set [0..<?H] \<and> x \<in> set [0..<?W]
                           then (case ?gx y x of None \<Rightarrow> ?Z ! y ! x | Some v \<Rightarrow> v)
                           else ?Z ! y ! x)"
    by blast
  then have ex: "?mx ! y ! x = (case ?gx y x of None \<Rightarrow> 0 | Some v \<Rightarrow> v)"
    unfolding z0 using inH inW by (simp only: if_True simp_thms)
  have "\<forall>y' x'. y' < length ?Z \<longrightarrow> x' < length (?Z ! y') \<longrightarrow>
          ?my ! y' ! x' = (if y' \<in> set [0..<?H] \<and> x' \<in> set [0..<?W]
                           then (case ?gy y' x' of None \<Rightarrow> ?Z ! y' ! x' | Some v \<Rightarrow> v)
                           else ?Z ! y' ! x')"
    using fill_table [where g = ?gy and xs = "[0..<?W]" and ys = "[0..<?H]" and m = ?Z]
    by blast
  with zy zx have "?my ! y ! x = (if y \<in> set [0..<?H] \<and> x \<in> set [0..<?W]
                           then (case ?gy y x of None \<Rightarrow> ?Z ! y ! x | Some v \<Rightarrow> v)
                           else ?Z ! y ! x)"
    by blast
  then have ey: "?my ! y ! x = (case ?gy y x of None \<Rightarrow> 0 | Some v \<Rightarrow> v)"
    unfolding z0 using inH inW by (simp only: if_True simp_thms)
  have cx: "(case ?gx y x of None \<Rightarrow> 0 | Some v \<Rightarrow> v)
              = (case src_pixel fl p h w y x of None \<Rightarrow> 0 | Some (a, b) \<Rightarrow> float32 fl a)"
    by (cases "src_pixel fl p h w y x") auto
  have cy: "(case ?gy y x of None \<Rightarrow> 0 | Some v \<Rightarrow> v)
              = (case src_pixel fl p h w y x of None \<Rightarrow> 0 | Some (a, b) \<Rightarrow> float32 fl b)"
    by (cases "src_pixel fl p h w y x") auto
  from run ex ey show ?thesis
    unfolding cx cy by blast
qed


text \<open>
  Claim C2, as the code has it. A pixel whose \<open>r\<close> compares equal to 0, or whose source
  coordinate fails \<open>0 <= src_x < Sw and 0 <= src_y < Sh\<close>, keeps the value the tables were
  created with, 0 in \<open>map_x\<close> and 0 in \<open>map_y\<close>, and the construction returns its
  tables. This holds whatever the arithmetic \<open>fl\<close> is.
\<close>

theorem init_mapping_table_unmapped:
  assumes "x < nat (output_width p)" and "y < nat (output_height p)"
  shows "let theta = f_sub fl (f_div fl (f_mul fl (f_mul fl (num fl 2) (np_pi fl)) (num fl (real x)))
                                        (num fl (real_of_int (output_width p))))
                              (np_pi fl);
             phi = f_sub fl (f_div fl (f_mul fl (np_pi fl) (num fl (real y)))
                                      (num fl (real_of_int (output_height p))))
                            (f_div fl (np_pi fl) (num fl 2));
             vx = f_mul fl (np_cos fl phi) (np_cos fl theta);
             vy = f_mul fl (np_cos fl phi) (np_sin fl theta);
             vz = np_sin fl phi;
             lens = (if f_le fl (f_div fl (f_neg fl (np_pi fl)) (num fl 2)) theta
                        \<and> f_le fl theta (f_div fl (np_pi fl) (num fl 2))
                     then right (fisheye_params p) else left (fisheye_params p));
             r = np_sqrt fl (f_add fl (f_mul fl vx vx) (f_mul fl vz vz));
             azimuth = f_add fl (np_arctan2 fl vy vx) (num fl (offset_angle lens));
             radial = f_div fl
                        (np_arccos fl
                           (f_div fl vz
                              (np_sqrt fl (f_add fl (f_add fl (f_mul fl vx vx) (f_mul fl vy vy))
                                                    (f_mul fl vz vz)))))
                        (np_pi fl);
             src_x = f_add fl (f_mul fl (num fl (cx lens)) (num fl (real Sw)))
                              (f_mul fl (f_mul fl (f_mul fl (num fl (radius lens)) (num fl (real Sw)))
                                                  radial)
                                        (np_cos fl azimuth));
             src_y = f_add fl (f_mul fl (num fl (cy lens)) (num fl (real Sh)))
                              (f_mul fl (f_mul fl (f_mul fl (num fl (radius lens)) (num fl (real Sh)))
                                                  radial)
                                        (np_sin fl azimuth))
         in f_eq fl r (num fl 0) \<or>
            \<not> (f_le fl (num fl 0) src_x \<and> f_lt fl src_x (num fl (real Sw)) \<and>
               f_le fl (num fl 0) src_y \<and> f_lt fl src_y (num fl (real Sh))) \<longrightarrow>
            (\<exists>mx my. init_mapping_table fl p (Sh, Sw) = Inr (mx, my) \<and>
                      mx ! y ! x = 0 \<and> my ! y ! x = 0)"
  using table_entries [OF assms, of fl Sh Sw]
  by (auto simp: src_pixel_def Let_def)







lemma edge_calibration:
  "output_width (insta360_processor_init
        (Some \<lparr> left = \<lparr> cx = 0, cy = 1 / 2, radius = 1 / 2, offset_angle = 0 \<rparr>,
                right = \<lparr> cx = 1, cy = 1 / 2, radius = 1 / 2, offset_angle = 0 \<rparr> \<rparr>) 0 4 2) = 4"
  "output_height (insta360_processor_init
        (Some \<lparr> left = \<lparr> cx = 0, cy = 1 / 2, radius = 1 / 2, offset_angle = 0 \<rparr>,
                right = \<lparr> cx = 1, cy = 1 / 2, radius = 1 / 2, offset_angle = 0 \<rparr> \<rparr>) 0 4 2) = 2"
  "fisheye_params (insta360_processor_init
        (Some \<lparr> left = \<lparr> cx = 0, cy = 1 / 2, radius = 1 / 2, offset_angle = 0 \<rparr>,
                right = \<lparr> cx = 1, cy = 1 / 2, radius = 1 / 2, offset_angle = 0 \<rparr> \<rparr>) 0 4 2) =
     \<lparr> left = \<lparr> cx = 0, cy = 1 / 2, radius = 1 / 2, offset_angle = 0 \<rparr>,
       right = \<lparr> cx = 1, cy = 1 / 2, radius = 1 / 2, offset_angle = 0 \<rparr> \<rparr>"
  by (simp_all add: insta360_processor_init_def)

lemma edge_front_pixel:
  "src_pixel exact_arith (insta360_processor_init
        (Some \<lparr> left = \<lparr> cx = 0, cy = 1 / 2, radius = 1 / 2, offset_angle = 0 \<rparr>,
                right = \<lparr> cx = 1, cy = 1 / 2, radius = 1 / 2, offset_angle = 0 \<rparr> \<rparr>) 0 4 2) 960 1920 1 2 = None"
  by (simp add: src_pixel_def exact_arith_def edge_calibration Let_def arctan2_def)



text \<open>
  Two pixels of the second table that are not mapped. The front pixel \<open>(2, 1)\<close> has a
  source coordinate outside the frame. The pixel \<open>(1, 1)\<close> looks along
  \<open>theta = - pi / 2\<close>, \<open>phi = 0\<close>, where \<open>r\<close> is 0 in the exact arithmetic, whose cosine
  of \<open>- pi / 2\<close> is 0.
\<close>

theorem init_mapping_table_unmapped_witness:
  "2 < nat (output_width (insta360_processor_init
        (Some \<lparr> left = \<lparr> cx = 0, cy = 1 / 2, radius = 1 / 2, offset_angle = 0 \<rparr>,
                right = \<lparr> cx = 1, cy = 1 / 2, radius = 1 / 2, offset_angle = 0 \<rparr> \<rparr>) 0 4 2)) \<and>
   1 < nat (output_height (insta360_processor_init
        (Some \<lparr> left = \<lparr> cx = 0, cy = 1 / 2, radius = 1 / 2, offset_angle = 0 \<rparr>,
                right = \<lparr> cx = 1, cy = 1 / 2, radius = 1 / 2, offset_angle = 0 \<rparr> \<rparr>) 0 4 2)) \<and>
   (\<exists>mx my. init_mapping_table exact_arith (insta360_processor_init
        (Some \<lparr> left = \<lparr> cx = 0, cy = 1 / 2, radius = 1 / 2, offset_angle = 0 \<rparr>,
                right = \<lparr> cx = 1, cy = 1 / 2, radius = 1 / 2, offset_angle = 0 \<rparr> \<rparr>) 0 4 2) (960, 1920) = Inr (mx, my) \<and>
              mx ! 1 ! 2 = 0 \<and> my ! 1 ! 2 = 0) \<and>
   (\<exists>mx my. init_mapping_table exact_arith (insta360_processor_init
        (Some \<lparr> left = \<lparr> cx = 0, cy = 1 / 2, radius = 1 / 2, offset_angle = 0 \<rparr>,
                right = \<lparr> cx = 1, cy = 1 / 2, radius = 1 / 2, offset_angle = 0 \<rparr> \<rparr>) 0 4 2) (960, 1920) = Inr (mx, my) \<and>
              mx ! 1 ! 1 = 0 \<and> my ! 1 ! 1 = 0)"
proof -
  let ?p = "(insta360_processor_init
        (Some \<lparr> left = \<lparr> cx = 0, cy = 1 / 2, radius = 1 / 2, offset_angle = 0 \<rparr>,
                right = \<lparr> cx = 1, cy = 1 / 2, radius = 1 / 2, offset_angle = 0 \<rparr> \<rparr>) 0 4 2)"
  have x: "2 < nat (output_width ?p)" and x1: "1 < nat (output_width ?p)"
    and y: "1 < nat (output_height ?p)"
    by (simp_all add: edge_calibration)
  from init_mapping_table_unmapped [OF x y, where fl = exact_arith and Sw = 1920 and Sh = 960]
  have front: "\<exists>mx my. init_mapping_table exact_arith ?p (960, 1920) = Inr (mx, my) \<and>
              mx ! 1 ! 2 = 0 \<and> my ! 1 ! 2 = 0"
    by (simp add: exact_arith_def edge_calibration Let_def arctan2_def)
  from init_mapping_table_unmapped [OF x1 y, where fl = exact_arith and Sw = 1920 and Sh = 960]
  have side: "\<exists>mx my. init_mapping_table exact_arith ?p (960, 1920) = Inr (mx, my) \<and>
              mx ! 1 ! 1 = 0 \<and> my ! 1 ! 1 = 0"
    by (simp add: exact_arith_def edge_calibration Let_def arctan2_def)
  from x y front side show ?thesis by blast
qed

text \<open>
  Claim C2 as it is stated asks for a mark that no valid source coordinate can be
  confused with. The front pixel of the second table is not mapped, and its entry
  \<open>(0, 0)\<close> lies in the frame: it is the coordinate of the top-left pixel of the source
  frame.
\<close>

theorem init_mapping_table_unmapped_is_origin:
  "src_pixel exact_arith (insta360_processor_init
        (Some \<lparr> left = \<lparr> cx = 0, cy = 1 / 2, radius = 1 / 2, offset_angle = 0 \<rparr>,
                right = \<lparr> cx = 1, cy = 1 / 2, radius = 1 / 2, offset_angle = 0 \<rparr> \<rparr>) 0 4 2) 960 1920 1 2 = None \<and>
   map_sum id (\<lambda>(mx, my). (mx ! 1 ! 2, my ! 1 ! 2))
     (init_mapping_table exact_arith (insta360_processor_init
        (Some \<lparr> left = \<lparr> cx = 0, cy = 1 / 2, radius = 1 / 2, offset_angle = 0 \<rparr>,
                right = \<lparr> cx = 1, cy = 1 / 2, radius = 1 / 2, offset_angle = 0 \<rparr> \<rparr>) 0 4 2) (960, 1920)) = Inr (0, 0) \<and>
   in_frame 960 1920 (0, 0)"
proof -
  let ?p = "(insta360_processor_init
        (Some \<lparr> left = \<lparr> cx = 0, cy = 1 / 2, radius = 1 / 2, offset_angle = 0 \<rparr>,
                right = \<lparr> cx = 1, cy = 1 / 2, radius = 1 / 2, offset_angle = 0 \<rparr> \<rparr>) 0 4 2)"
  have x: "2 < nat (output_width ?p)" and y: "1 < nat (output_height ?p)"
    by (simp_all add: edge_calibration)
  from table_entries [OF x y, of exact_arith 960 1920]
  obtain mx my where "init_mapping_table exact_arith ?p (960, 1920) = Inr (mx, my)"
    and "mx ! 1 ! 2 = 0" and "my ! 1 ! 2 = 0"
    unfolding edge_front_pixel by auto
  then have "map_sum id (\<lambda>(mx, my). (mx ! 1 ! 2, my ! 1 ! 2))
     (init_mapping_table exact_arith ?p (960, 1920)) = Inr (0, 0)"
    by simp
  moreover have "in_frame 960 1920 (0, 0)"
    by (simp add: in_frame_def)
  ultimately show ?thesis
    using edge_front_pixel by blast
qed

subsection \<open>The calibration utilities\<close>

lemma create_detector_unsupported:
  "str_lower method \<notin> {''sift'', ''orb'', ''akaze''} \<Longrightarrow>
     detect_and_match_features cv img1 img2 method = Inl ValueError"
  by (simp add: detect_and_match_features_def create_detector_def ebind_def)

text \<open>
  Claim C9. \<open>find_homography\<close> returns \<open>None\<close> on fewer than four matches, whatever
  the keypoints are. \<open>detect_and_match_features\<close>, once the method names one of the three
  detectors, returns three empty lists when the detector gives no descriptors for one
  of the images or fewer than two keypoints for one of them; the matcher is not called.
\<close>

theorem calibration_no_result:
  "(length good_matches < 4 \<longrightarrow> find_homography cv kp1 kp2 good_matches = Inr None)
   \<and> (create_detector method = Inr d \<longrightarrow>
        detectAndCompute cv d (to_gray cv img1) = (k1, des1) \<longrightarrow>
        detectAndCompute cv d (to_gray cv img2) = (k2, des2) \<longrightarrow>
        des1 = None \<or> des2 = None \<or> length k1 < 2 \<or> length k2 < 2 \<longrightarrow>
        detect_and_match_features cv img1 img2 method = Inr ([], [], []))"
  by (auto simp: find_homography_def detect_and_match_features_def ebind_def Let_def)

text \<open>
  Three matches, and an image on which the detector finds nothing, with the method
  written in capitals.
\<close>

lemma lower_SIFT: "str_lower ''SIFT'' = ''sift''"
  by code_simp

theorem calibration_no_result_witness:
  "length [\<lparr>queryIdx = 0, trainIdx = 0, distance = 1\<rparr>,
           \<lparr>queryIdx = 1, trainIdx = 1, distance = 1\<rparr>,
           \<lparr>queryIdx = 2, trainIdx = 2, distance = 1\<rparr>] < 4
   \<and> find_homography
       \<lparr>ndim = (\<lambda>i. 3), cvtColor = (\<lambda>i. i),
        detectAndCompute = (\<lambda>d i. if i = (0::nat) then ([], None) else ([\<lparr>pt = (1, 1)\<rparr>], Some (5::nat))),
        knnMatch = (\<lambda>n a b. []), findHomography = (\<lambda>a b. Some (1::nat))\<rparr>
       [] []
       [\<lparr>queryIdx = 0, trainIdx = 0, distance = 1\<rparr>,
        \<lparr>queryIdx = 1, trainIdx = 1, distance = 1\<rparr>,
        \<lparr>queryIdx = 2, trainIdx = 2, distance = 1\<rparr>] = Inr None
   \<and> create_detector ''SIFT'' = Inr SIFT_create
   \<and> detect_and_match_features
       \<lparr>ndim = (\<lambda>i. 3), cvtColor = (\<lambda>i. i),
        detectAndCompute = (\<lambda>d i. if i = (0::nat) then ([], None) else ([\<lparr>pt = (1, 1)\<rparr>], Some (5::nat))),
        knnMatch = (\<lambda>n a b. []), findHomography = (\<lambda>a b. Some (1::nat))\<rparr>
       0 1 ''SIFT'' = Inr ([], [], [])"
proof -
  let ?cv = "\<lparr>ndim = (\<lambda>i::nat. 3::nat), cvtColor = (\<lambda>i. i),
        detectAndCompute = (\<lambda>d i. if i = (0::nat) then ([], None) else ([\<lparr>pt = (1, 1)\<rparr>], Some (5::nat))),
        knnMatch = (\<lambda>n a b. []), findHomography = (\<lambda>a b. Some (1::nat))\<rparr>"
  let ?ms = "[\<lparr>queryIdx = 0, trainIdx = 0, distance = 1\<rparr>,
           \<lparr>queryIdx = 1, trainIdx = 1, distance = 1\<rparr>,
           \<lparr>queryIdx = 2, trainIdx = 2, distance = 1\<rparr>]"
  have l: "length ?ms < 4" by simp
  have c: "create_detector ''SIFT'' = Inr SIFT_create"
    by (simp add: create_detector_def lower_SIFT)
  have d1: "detectAndCompute ?cv SIFT_create (to_gray ?cv 0) = ([], None)"
    by (simp add: to_gray_def)
  have d2: "detectAndCompute ?cv SIFT_create (to_gray ?cv 1) = ([\<lparr>pt = (1, 1)\<rparr>], Some 5)"
    by (simp add: to_gray_def)
  from calibration_no_result [of ?ms ?cv "[]" "[]" "''SIFT''" SIFT_create 0 "[]" None 1 "[\<lparr>pt = (1, 1)\<rparr>]" "Some 5"]
    l c d1 d2
  show ?thesis by blast
qed

end
